theory Spec2Isabelle
  imports Main
begin

section \<open>Run-time values\<close>

text \<open>
  The client of \<^verbatim>\<open>src/index.ts\<close> handles backend payloads typed \<^verbatim>\<open>any\<close>: the
  \<^verbatim>\<open>data\<close> and \<^verbatim>\<open>error\<close> of a remote call, the entries of \<^verbatim>\<open>services: any[]\<close> and the
  values of a parameter object. They are JavaScript values; an object is a map from
  property names to values. The client performs no arithmetic: a number is carried
  as it is, and only its truthiness can ever be inspected, so an integer stands for it.
\<close>

datatype jsval =
    JUndefined
  | JNull
  | JBool bool
  | JNum int
  | JStr string
  | JArr "jsval list"
  | JObj "string \<rightharpoonup> jsval"

type_synonym obj = "string \<rightharpoonup> jsval"

text \<open>What a rejected promise carries: \<^verbatim>\<open>new Error(msg)\<close>, or the engine's TypeError.\<close>

datatype js_exception = Error string | TypeError

text \<open>JavaScript's ToBoolean, as used by \<^verbatim>\<open>if (data)\<close>, \<^verbatim>\<open>!service\<close> and \<^verbatim>\<open>if (response.error)\<close>.\<close>

fun truthy :: "jsval \<Rightarrow> bool" where
  "truthy JUndefined = False"
| "truthy JNull = False"
| "truthy (JBool b) = b"
| "truthy (JNum n) = (n \<noteq> 0)"
| "truthy (JStr s) = (s \<noteq> [])"
| "truthy (JArr xs) = True"
| "truthy (JObj m) = True"

text \<open>
  Reading the property \<^verbatim>\<open>name\<close> or \<^verbatim>\<open>id\<close> of a value (\<^verbatim>\<open>service.name\<close>, \<^verbatim>\<open>service["id"]\<close>):
  on \<^verbatim>\<open>null\<close> and \<^verbatim>\<open>undefined\<close> the engine throws a TypeError, an object gives the stored
  value or \<^verbatim>\<open>undefined\<close>, and neither a primitive nor an array has a property of
  either name.
\<close>

fun get_prop :: "jsval \<Rightarrow> string \<Rightarrow> js_exception + jsval" where
  "get_prop JUndefined k = Inl TypeError"
| "get_prop JNull k = Inl TypeError"
| "get_prop (JObj m) k = Inr (case m k of None \<Rightarrow> JUndefined | Some v \<Rightarrow> v)"
| "get_prop (JBool b) k = Inr JUndefined"
| "get_prop (JNum n) k = Inr JUndefined"
| "get_prop (JStr s) k = Inr JUndefined"
| "get_prop (JArr xs) k = Inr JUndefined"

text \<open>\<^verbatim>\<open>v === s\<close> for a string \<^verbatim>\<open>s\<close>: no coercion, so only the same string is equal.\<close>

fun strict_eq_str :: "jsval \<Rightarrow> string \<Rightarrow> bool" where
  "strict_eq_str (JStr a) s = (a = s)"
| "strict_eq_str JUndefined s = False"
| "strict_eq_str JNull s = False"
| "strict_eq_str (JBool b) s = False"
| "strict_eq_str (JNum n) s = False"
| "strict_eq_str (JArr xs) s = False"
| "strict_eq_str (JObj m) s = False"

text \<open>
  \<^verbatim>\<open>Array.prototype.find\<close>: the first element on which the predicate holds, \<^verbatim>\<open>undefined\<close>
  when there is none; an exception of the predicate ends the search.
\<close>

fun array_find :: "(jsval \<Rightarrow> js_exception + bool) \<Rightarrow> jsval list \<Rightarrow> js_exception + jsval" where
  "array_find p [] = Inr JUndefined"
| "array_find p (x # xs) =
     (case p x of
        Inl e \<Rightarrow> Inl e
      | Inr b \<Rightarrow> if b then Inr x else array_find p xs)"

section \<open>Job configurations and their serialisation\<close>

text \<open>
  A job configuration is an object the caller writes: its properties are listed in the
  order in which the runtime enumerates them. Its values may be ones no backend payload
  has: \<^verbatim>\<open>undefined\<close>, \<^verbatim>\<open>NaN\<close>, a BigInt. A finite number is integer-valued and of magnitude
  below \<^verbatim>\<open>1e21\<close>, the numbers that \<^verbatim>\<open>Number.prototype.toString\<close> prints in plain decimal.
\<close>

datatype js_config =
    CUndefined
  | CNull
  | CBool bool
  | CNum int
  | CNaN
  | CBigInt int
  | CStr string
  | CArr "js_config list"
  | CObj "(string \<times> js_config) list"

fun decimal :: "nat \<Rightarrow> string" where
  "decimal n =
     (if n < 10 then [''0123456789'' ! n]
      else decimal (n div 10) @ [''0123456789'' ! (n mod 10)])"

definition number_to_string :: "int \<Rightarrow> string" where
  "number_to_string i = (if i < 0 then CHR ''-'' # decimal (nat (- i)) else decimal (nat i))"

definition hex_digit :: "nat \<Rightarrow> char" where
  "hex_digit n = ''0123456789abcdef'' ! n"

text \<open>
  \<^verbatim>\<open>QuoteJSONString\<close>: the double quote and the backslash are escaped with a backslash; a
  control character (a code below 32) is written as a backslash followed by \<^verbatim>\<open>b\<close>, \<^verbatim>\<open>t\<close>,
  \<^verbatim>\<open>n\<close>, \<^verbatim>\<open>f\<close> or \<^verbatim>\<open>r\<close> when it has such a short form, and by \<^verbatim>\<open>u00\<close> and its two lower-case
  hexadecimal digits otherwise; every other character stands for itself.
\<close>

definition quote_char :: "char \<Rightarrow> string" where
  "quote_char c =
     (if c = CHR 0x22 then [CHR 0x5C, CHR 0x22]
      else if c = CHR 0x5C then [CHR 0x5C, CHR 0x5C]
      else if c = CHR 0x08 then [CHR 0x5C, CHR ''b'']
      else if c = CHR 0x09 then [CHR 0x5C, CHR ''t'']
      else if c = CHR 0x0A then [CHR 0x5C, CHR ''n'']
      else if c = CHR 0x0C then [CHR 0x5C, CHR ''f'']
      else if c = CHR 0x0D then [CHR 0x5C, CHR ''r'']
      else if (of_char c :: nat) < 32
      then [CHR 0x5C, CHR ''u'', CHR ''0'', CHR ''0'',
            hex_digit (of_char c div 16), hex_digit (of_char c mod 16)]
      else [c])"

definition quote_json_string :: "string \<Rightarrow> string" where
  "quote_json_string s = [CHR 0x22] @ concat (map quote_char s) @ [CHR 0x22]"

fun join_commas :: "string list \<Rightarrow> string" where
  "join_commas [] = []"
| "join_commas [s] = s"
| "join_commas (s # t # rest) = s @ '','' @ join_commas (t # rest)"

text \<open>
  Modelled from the library's documentation: \<^verbatim>\<open>JSON.stringify(value)\<close> of the JavaScript
  runtime (ECMA-262, SerializeJSONProperty, SerializeJSONObject, SerializeJSONArray),
  without replacer or indentation, on values that have no \<^verbatim>\<open>toJSON\<close> method. The result
  is a string or \<^verbatim>\<open>undefined\<close> (\<open>None\<close>); a BigInt makes it throw a TypeError. A property
  whose value serialises to \<^verbatim>\<open>undefined\<close> is left out of its object, an array element that
  does is written \<^verbatim>\<open>null\<close>, and so is a number that is not finite.
\<close>

fun serialize_property :: "js_config \<Rightarrow> js_exception + string option"
  and serialize_elements :: "js_config list \<Rightarrow> js_exception + string list"
  and serialize_members :: "(string \<times> js_config) list \<Rightarrow> js_exception + string list" where
  "serialize_property CUndefined = Inr None"
| "serialize_property CNull = Inr (Some ''null'')"
| "serialize_property (CBool b) = Inr (Some (if b then ''true'' else ''false''))"
| "serialize_property (CNum i) = Inr (Some (number_to_string i))"
| "serialize_property CNaN = Inr (Some ''null'')"
| "serialize_property (CBigInt i) = Inl TypeError"
| "serialize_property (CStr s) = Inr (Some (quote_json_string s))"
| "serialize_property (CArr elements) =
     (case serialize_elements elements of
        Inl e \<Rightarrow> Inl e
      | Inr partial \<Rightarrow> Inr (Some (''['' @ join_commas partial @ '']'')))"
| "serialize_property (CObj members) =
     (case serialize_members members of
        Inl e \<Rightarrow> Inl e
      | Inr partial \<Rightarrow> Inr (Some (''{'' @ join_commas partial @ ''}'')))"
| "serialize_elements [] = Inr []"
| "serialize_elements (v # rest) =
     (case serialize_property v of
        Inl e \<Rightarrow> Inl e
      | Inr strP \<Rightarrow>
          (case serialize_elements rest of
             Inl e \<Rightarrow> Inl e
           | Inr partial \<Rightarrow> Inr ((case strP of None \<Rightarrow> ''null'' | Some s \<Rightarrow> s) # partial)))"
| "serialize_members [] = Inr []"
| "serialize_members ((k, v) # rest) =
     (case serialize_property v of
        Inl e \<Rightarrow> Inl e
      | Inr strP \<Rightarrow>
          (case serialize_members rest of
             Inl e \<Rightarrow> Inl e
           | Inr partial \<Rightarrow>
               Inr (case strP of
                      None \<Rightarrow> partial
                    | Some s \<Rightarrow> (quote_json_string k @ '':'' @ s) # partial)))"

definition JSON_stringify :: "js_config \<Rightarrow> js_exception + string option" where
  "JSON_stringify v = serialize_property v"

section \<open>The client\<close>

text \<open>\<^verbatim>\<open>WorkerFilter\<close>: five optional fields (\<^verbatim>\<open>id\<close>, \<^verbatim>\<open>name\<close>, \<^verbatim>\<open>branch\<close>, \<^verbatim>\<open>is_dirty\<close>, \<^verbatim>\<open>cluster\<close>).\<close>

record WorkerFilter =
  id_w :: "string option"
  name_w :: "string option"
  branch :: "string option"
  is_dirty :: "bool option"
  cluster :: "int option"

text \<open>The filter as the object it is at run time: the fields that are present.\<close>

definition filter_obj :: "WorkerFilter \<Rightarrow> obj" where
  "filter_obj f =
     (\<lambda>k. if k = ''id'' then map_option JStr (id_w f)
          else if k = ''name'' then map_option JStr (name_w f)
          else if k = ''branch'' then map_option JStr (branch f)
          else if k = ''is_dirty'' then map_option JBool (is_dirty f)
          else if k = ''cluster'' then map_option JNum (cluster f)
          else None)"

text \<open>The pair \<^verbatim>\<open>{ data, error }\<close> every remote call resolves to.\<close>

record response =
  data :: jsval
  error :: jsval

text \<open>One call of \<^verbatim>\<open>supabase.rpc(fn, params)\<close>, as the gateway receives it.\<close>

record rpc_call =
  rpc_fn :: string
  rpc_params :: obj

text \<open>
  The gateway is an external service: \<^verbatim>\<open>supabase\<close> gives the response to a call, which
  may depend on every call received before.
\<close>

type_synonym SupabaseClient = "rpc_call list \<Rightarrow> string \<Rightarrow> obj \<Rightarrow> response"

record SelasClient =
  supabase :: SupabaseClient
  app_id :: string
  key :: string
  app_user_id :: string
  app_user_token :: string
  worker_filter :: WorkerFilter
  services :: jsval

text \<open>
  The relay (pusher-js) is external too. What the client does to it is recorded: each
  \<^verbatim>\<open>new Pusher(key, {cluster})\<close> is a connection, with the channels subscribed on it and the
  callbacks bound to event names on each channel.
\<close>

record 'cb Channel =
  channel_name :: string
  bindings :: "(string \<times> 'cb) list"

record 'cb Pusher =
  pusher_key :: string
  pusher_cluster :: string
  channels :: "'cb Channel list"

text \<open>The world outside the client: the calls the gateway has received, the relay connections.\<close>

record 'cb world =
  rpc_log :: "rpc_call list"
  relay :: "'cb Pusher list"

text \<open>The constructor: \<^verbatim>\<open>worker_filter || { branch: "prod" }\<close>, and an empty service list.\<close>

definition SelasClient_new ::
  "SupabaseClient \<Rightarrow> string \<Rightarrow> string \<Rightarrow> string \<Rightarrow> string \<Rightarrow> WorkerFilter option \<Rightarrow> SelasClient" where
  "SelasClient_new sb a k u t worker_filter_arg =
     \<lparr> supabase = sb, app_id = a, key = k, app_user_id = u, app_user_token = t,
       worker_filter =
         (case worker_filter_arg of
            Some f \<Rightarrow> f
          | None \<Rightarrow> \<lparr> id_w = None, name_w = None, branch = Some ''prod'',
                      is_dirty = None, cluster = None \<rparr>),
       services = JArr [] \<rparr>"

text \<open>
  \<^verbatim>\<open>rpc\<close>: the spread \<^verbatim>\<open>{...params, p_app_id: .., p_key: .., p_app_user_id: .., p_app_user_token: ..}\<close>
  copies the parameters and then assigns the four credential properties; the result goes
  to the gateway, whose pair is returned.
\<close>

definition rpc :: "SelasClient \<Rightarrow> string \<Rightarrow> obj \<Rightarrow> 'cb world \<Rightarrow> response \<times> 'cb world" where
  "rpc this f params w =
     (let paramsWithToken =
            params(''p_app_id'' \<mapsto> JStr (app_id this),
                   ''p_key'' \<mapsto> JStr (key this),
                   ''p_app_user_id'' \<mapsto> JStr (app_user_id this),
                   ''p_app_user_token'' \<mapsto> JStr (app_user_token this));
          r = supabase this (rpc_log w) f paramsWithToken
      in (\<lparr> data = data r, error = error r \<rparr>,
          w\<lparr> rpc_log := rpc_log w @ [\<lparr> rpc_fn = f, rpc_params = paramsWithToken \<rparr>] \<rparr>))"

definition getServiceList :: "SelasClient \<Rightarrow> 'cb world \<Rightarrow> response \<times> SelasClient \<times> 'cb world" where
  "getServiceList this w =
     (case rpc this ''app_user_get_services'' Map.empty w of
        (r, w') \<Rightarrow>
          (r, (if truthy (data r) then this\<lparr> services := data r \<rparr> else this), w'))"

definition echo :: "string \<Rightarrow> SelasClient \<Rightarrow> 'cb world \<Rightarrow> response \<times> 'cb world" where
  "echo message this w = rpc this ''app_user_echo'' [''message_app_user'' \<mapsto> JStr message] w"

definition getAppUserCredits :: "SelasClient \<Rightarrow> 'cb world \<Rightarrow> response \<times> 'cb world" where
  "getAppUserCredits this w =
     (case rpc this ''app_user_get_credits'' Map.empty w of
        (r, w') \<Rightarrow> (\<lparr> data = data r, error = error r \<rparr>, w'))"

definition getAppUserJobHistory :: "int \<Rightarrow> int \<Rightarrow> SelasClient \<Rightarrow> 'cb world \<Rightarrow> response \<times> 'cb world" where
  "getAppUserJobHistory limit offset this w =
     (case rpc this ''app_user_get_job_history_detail''
             [''p_limit'' \<mapsto> JNum limit, ''p_offset'' \<mapsto> JNum offset] w of
        (r, w') \<Rightarrow> (\<lparr> data = data r, error = error r \<rparr>, w'))"

text \<open>What \<^verbatim>\<open>JSON.stringify\<close> returns, as the value of a property: a string or \<^verbatim>\<open>undefined\<close>.\<close>

definition serialized_value :: "string option \<Rightarrow> jsval" where
  "serialized_value r = (case r of None \<Rightarrow> JUndefined | Some s \<Rightarrow> JStr s)"

text \<open>
  \<^verbatim>\<open>postJob\<close>. \<^verbatim>\<open>this.services.find\<close> exists only on an array. \<^verbatim>\<open>JSON.stringify\<close> belongs to
  the JavaScript runtime, not to this repository: it is the parameter \<open>stringify\<close>, and
  the job configuration, which the client only hands to it, is of any type \<open>'cfg\<close>. It
  returns a string or \<^verbatim>\<open>undefined\<close>, or throws. The argument object of \<^verbatim>\<open>this.rpc\<close> is built
  before the call, \<^verbatim>\<open>service["id"]\<close> first and \<^verbatim>\<open>JSON.stringify(args.job_config)\<close> next: an
  exception of the serialiser rejects \<^verbatim>\<open>postJob\<close> before anything is sent.
\<close>

definition postJob ::
  "('cfg \<Rightarrow> js_exception + string option) \<Rightarrow> string \<Rightarrow> 'cfg \<Rightarrow> SelasClient \<Rightarrow> 'cb world
     \<Rightarrow> (js_exception + response) \<times> 'cb world" where
  "postJob stringify service_name job_config this w =
     (case (case services this of
              JArr entries \<Rightarrow>
                array_find
                  (\<lambda>service. case get_prop service ''name'' of
                                Inl e \<Rightarrow> Inl e
                              | Inr n \<Rightarrow> Inr (strict_eq_str n service_name))
                  entries
            | _ \<Rightarrow> Inl TypeError) of
        Inl e \<Rightarrow> (Inl e, w)
      | Inr service \<Rightarrow>
          if \<not> truthy service then (Inl (Error ''Invalid model name''), w)
          else
            (case get_prop service ''id'' of
               Inl e \<Rightarrow> (Inl e, w)
             | Inr service_id \<Rightarrow>
                 (case stringify job_config of
                    Inl e \<Rightarrow> (Inl e, w)
                  | Inr serialized \<Rightarrow>
                      (case rpc this ''app_owner_post_job_admin''
                              [''p_service_id'' \<mapsto> service_id,
                               ''p_job_config'' \<mapsto> serialized_value serialized,
                               ''p_worker_filter'' \<mapsto> JObj (filter_obj (worker_filter this))] w of
                         (r, w') \<Rightarrow> (Inr \<lparr> data = data r, error = error r \<rparr>, w')))))"

text \<open>
  Modelled from the spec: the interface of the push notification relay (pusher-js, an
  external library that the sources only call), as \<^verbatim>\<open>subscribeToJob\<close> uses it.
  \<^verbatim>\<open>new Pusher(key, {cluster})\<close> opens a connection with no channel, \<^verbatim>\<open>subscribe(name)\<close> adds the
  channel unless the connection has it already, and \<^verbatim>\<open>channel.bind(event, callback)\<close> adds a
  binding to that channel.
\<close>

definition Pusher_new :: "string \<Rightarrow> string \<Rightarrow> 'cb Pusher" where
  "Pusher_new k c = \<lparr> pusher_key = k, pusher_cluster = c, channels = [] \<rparr>"

definition pusher_subscribe :: "string \<Rightarrow> 'cb Pusher \<Rightarrow> 'cb Pusher" where
  "pusher_subscribe n p =
     (if n \<in> set (map channel_name (channels p)) then p
      else p\<lparr> channels := channels p @ [\<lparr> channel_name = n, bindings = [] \<rparr>] \<rparr>)"

definition channel_bind :: "string \<Rightarrow> string \<Rightarrow> 'cb \<Rightarrow> 'cb Pusher \<Rightarrow> 'cb Pusher" where
  "channel_bind n event callback p =
     p\<lparr> channels :=
          map (\<lambda>c. if channel_name c = n then c\<lparr> bindings := bindings c @ [(event, callback)] \<rparr>
                    else c)
              (channels p) \<rparr>"

text \<open>
  Modelled from the spec: the delivery rule of the relay, which is not in the sources. An
  event \<open>event\<close> published on the channel \<open>n\<close> runs, on a connection, the callbacks bound to
  that event name on the channel of that name.
\<close>

definition delivered :: "'cb Pusher \<Rightarrow> string \<Rightarrow> string \<Rightarrow> 'cb list" where
  "delivered p n event =
     concat (map (\<lambda>c. if channel_name c = n
                       then map snd (filter (\<lambda>b. fst b = event) (bindings c))
                       else [])
                 (channels p))"

text \<open>\<^verbatim>\<open>subscribeToJob\<close>: a connection of its own, the channel \<^verbatim>\<open>`job-${job_id}`\<close>, one binding.\<close>

definition subscribeToJob :: "string \<Rightarrow> 'cb \<Rightarrow> 'cb world \<Rightarrow> 'cb world" where
  "subscribeToJob job_id callback w =
     (let client = Pusher_new ''n'' ''eu'';
          channel = ''job-'' @ job_id;
          client1 = pusher_subscribe channel client;
          client2 = channel_bind channel ''result'' callback client1
      in w\<lparr> relay := relay w @ [client2] \<rparr>)"

text \<open>\<^verbatim>\<open>runStableDiffusion\<close>: \<^verbatim>\<open>postJob\<close>, then the pair normalised on \<^verbatim>\<open>response.error\<close>.\<close>

definition runStableDiffusion ::
  "('cfg \<Rightarrow> js_exception + string option) \<Rightarrow> 'cfg \<Rightarrow> string \<Rightarrow> SelasClient \<Rightarrow> 'cb world
     \<Rightarrow> (js_exception + response) \<times> 'cb world" where
  "runStableDiffusion stringify args model_name this w =
     (case postJob stringify model_name args this w of
        (Inl e, w') \<Rightarrow> (Inl e, w')
      | (Inr response, w') \<Rightarrow>
          if truthy (error response)
          then (Inr \<lparr> data = JNull, error = error response \<rparr>, w')
          else (Inr \<lparr> data = data response, error = JNull \<rparr>, w'))"

text \<open>
  \<^verbatim>\<open>createSelasClient\<close>: the constructor, then one \<^verbatim>\<open>getServiceList\<close> whose pair is dropped.
  The gateway client that \<^verbatim>\<open>createClient(SUPABASE_URL, SUPABASE_KEY)\<close> builds is the
  argument \<open>sb\<close>.
\<close>

definition createSelasClient ::
  "SupabaseClient \<Rightarrow> string \<Rightarrow> string \<Rightarrow> string \<Rightarrow> string \<Rightarrow> WorkerFilter option \<Rightarrow> 'cb world
     \<Rightarrow> SelasClient \<times> 'cb world" where
  "createSelasClient sb a k u t worker_filter_arg w =
     (let selas = SelasClient_new sb a k u t worker_filter_arg
      in case getServiceList selas w of (r, selas', w') \<Rightarrow> (selas', w'))"

section \<open>Sequences of operations\<close>

text \<open>
  The public methods of the client, as a caller may invoke them one after the other. A
  method that throws leaves the client as it was and the caller goes on.
\<close>

datatype ('cfg, 'cb) operation =
    GetServiceList
  | Echo string
  | GetAppUserCredits
  | GetAppUserJobHistory int int
  | PostJob string 'cfg
  | SubscribeToJob string 'cb
  | RunStableDiffusion 'cfg string

fun exec ::
  "('cfg \<Rightarrow> js_exception + string option) \<Rightarrow> ('cfg, 'cb) operation
     \<Rightarrow> SelasClient \<times> 'cb world \<Rightarrow> SelasClient \<times> 'cb world" where
  "exec stringify GetServiceList (this, w) = snd (getServiceList this w)"
| "exec stringify (Echo message) (this, w) = (this, snd (echo message this w))"
| "exec stringify GetAppUserCredits (this, w) = (this, snd (getAppUserCredits this w))"
| "exec stringify (GetAppUserJobHistory limit offset) (this, w) =
     (this, snd (getAppUserJobHistory limit offset this w))"
| "exec stringify (PostJob service_name job_config) (this, w) =
     (this, snd (postJob stringify service_name job_config this w))"
| "exec stringify (SubscribeToJob job_id callback) (this, w) =
     (this, subscribeToJob job_id callback w)"
| "exec stringify (RunStableDiffusion args model_name) (this, w) =
     (this, snd (runStableDiffusion stringify args model_name this w))"

fun run ::
  "('cfg \<Rightarrow> js_exception + string option) \<Rightarrow> ('cfg, 'cb) operation list
     \<Rightarrow> SelasClient \<times> 'cb world \<Rightarrow> SelasClient \<times> 'cb world" where
  "run stringify [] s = s"
| "run stringify (operation # rest) s = run stringify rest (exec stringify operation s)"

section \<open>The requests of the interface description\<close>

text \<open>
  The four credential parameters that the interface description attaches to every call:
  \<^verbatim>\<open>p_app_id\<close>, \<^verbatim>\<open>p_key\<close>, \<^verbatim>\<open>p_app_user_id\<close>, \<^verbatim>\<open>p_app_user_token\<close>, from the client's
  credentials. Merging them into call-specific parameters is \<open>specific ++ credential_fields this\<close>.
\<close>

definition credential_fields :: "SelasClient \<Rightarrow> obj" where
  "credential_fields this =
     [''p_app_id'' \<mapsto> JStr (app_id this),
      ''p_key'' \<mapsto> JStr (key this),
      ''p_app_user_id'' \<mapsto> JStr (app_user_id this),
      ''p_app_user_token'' \<mapsto> JStr (app_user_token this)]"

text \<open>The value of a field of a catalog entry, \<^verbatim>\<open>undefined\<close> when the entry has no such field.\<close>

definition field :: "obj \<Rightarrow> string \<Rightarrow> jsval" where
  "field entry k = (case entry k of None \<Rightarrow> JUndefined | Some v \<Rightarrow> v)"

text \<open>
  The call-specific parameters of \<^verbatim>\<open>app_owner_post_job_admin\<close> for a catalog entry and a
  serialised configuration.
\<close>

definition job_params :: "SelasClient \<Rightarrow> obj \<Rightarrow> string option \<Rightarrow> obj" where
  "job_params this entry serialized =
     [''p_service_id'' \<mapsto> field entry ''id'',
      ''p_job_config'' \<mapsto> serialized_value serialized,
      ''p_worker_filter'' \<mapsto> JObj (filter_obj (worker_filter this))]"

section \<open>Example values\<close>

text \<open>
  The examples of the specification: a catalog with the one service \<^verbatim>\<open>{id: "svc-1", name: "sdxl"}\<close>,
  a gateway that lists it and answers a job creation with \<^verbatim>\<open>{data: "job-42", error: null}\<close>,
  a gateway that answers every call with the error \<^verbatim>\<open>{message: "quota exceeded"}\<close>, and the
  job configuration \<^verbatim>\<open>{steps: 28}\<close>.
\<close>

definition example_service :: obj where
  "example_service = [''id'' \<mapsto> JStr ''svc-1'', ''name'' \<mapsto> JStr ''sdxl'']"

definition example_gateway :: SupabaseClient where
  "example_gateway received f params =
     (if f = ''app_user_get_services''
      then \<lparr> data = JArr [JObj example_service], error = JNull \<rparr>
      else if f = ''app_owner_post_job_admin''
      then \<lparr> data = JStr ''job-42'', error = JNull \<rparr>
      else \<lparr> data = JNull, error = JNull \<rparr>)"

definition failing_gateway :: SupabaseClient where
  "failing_gateway received f params =
     \<lparr> data = JNull, error = JObj [''message'' \<mapsto> JStr ''quota exceeded''] \<rparr>"

definition example_config :: js_config where
  "example_config = CObj [(''steps'', CNum 28)]"


definition example_world :: "string world" where
  "example_world = \<lparr> rpc_log = [], relay = [] \<rparr>"

text \<open>A client as \<^verbatim>\<open>createSelasClient\<close> returns it, with the default worker filter.\<close>

definition example_client :: SelasClient where
  "example_client =
     fst (createSelasClient example_gateway ''app-1'' ''key-1'' ''user-1'' ''token-1'' None
            example_world)"

definition failing_client :: SelasClient where
  "failing_client = example_client\<lparr> supabase := failing_gateway \<rparr>"

section \<open>Auxiliary facts\<close>

text \<open>What \<^verbatim>\<open>rpc\<close> sends, with the merge written as \<open>++\<close>.\<close>

lemma rpc_eq:
  "rpc this f params w =
     (supabase this (rpc_log w) f (params ++ credential_fields this),
      w\<lparr> rpc_log := rpc_log w @ [\<lparr> rpc_fn = f, rpc_params = params ++ credential_fields this \<rparr>] \<rparr>)"
  by (simp add: rpc_def credential_fields_def Let_def)

lemma getServiceList_eq:
  "getServiceList this w =
     (let r = supabase this (rpc_log w) ''app_user_get_services'' (credential_fields this)
      in (r, (if truthy (data r) then this\<lparr> services := data r \<rparr> else this),
          w\<lparr> rpc_log := rpc_log w @
                [\<lparr> rpc_fn = ''app_user_get_services'',
                   rpc_params = credential_fields this \<rparr>] \<rparr>))"
  by (simp add: getServiceList_def rpc_eq Let_def)

lemma example_client_eq:
  "example_client =
     \<lparr> supabase = example_gateway, app_id = ''app-1'', key = ''key-1'',
       app_user_id = ''user-1'', app_user_token = ''token-1'',
       worker_filter = \<lparr> id_w = None, name_w = None, branch = Some ''prod'',
                         is_dirty = None, cluster = None \<rparr>,
       services = JArr [JObj example_service] \<rparr>"
  by (simp add: example_client_def createSelasClient_def getServiceList_eq
        example_gateway_def SelasClient_new_def)

lemma find_name_objects:
  "array_find (\<lambda>service. case get_prop service ''name'' of
                            Inl e \<Rightarrow> Inl e
                          | Inr n \<Rightarrow> Inr (strict_eq_str n service_name))
              (map JObj catalog) =
   Inr (case find (\<lambda>s. s ''name'' = Some (JStr service_name)) catalog of
          None \<Rightarrow> JUndefined
        | Some s \<Rightarrow> JObj s)"
proof (induction catalog)
  case Nil
  show ?case by simp
next
  case (Cons s rest)
  have "strict_eq_str (case s ''name'' of None \<Rightarrow> JUndefined | Some v \<Rightarrow> v) service_name
          = (s ''name'' = Some (JStr service_name))"
  proof (cases "s ''name''")
    case None
    then show ?thesis by simp
  next
    case (Some v)
    then show ?thesis by (cases v) auto
  qed
  with Cons show ?case by simp
qed

lemma postJob_no_match:
  assumes "services this = JArr (map JObj catalog)"
      and "find (\<lambda>s. s ''name'' = Some (JStr service_name)) catalog = None"
  shows "postJob stringify service_name job_config this w = (Inl (Error ''Invalid model name''), w)"
  using assms by (simp add: postJob_def find_name_objects)

lemma postJob_match:
  assumes "services this = JArr (map JObj catalog)"
      and "find (\<lambda>s. s ''name'' = Some (JStr service_name)) catalog = Some entry"
      and "stringify job_config = Inr serialized"
  shows "postJob stringify service_name job_config this w =
           (Inr (supabase this (rpc_log w) ''app_owner_post_job_admin''
                   (job_params this entry serialized ++ credential_fields this)),
            w\<lparr> rpc_log := rpc_log w @
                  [\<lparr> rpc_fn = ''app_owner_post_job_admin'',
                     rpc_params = job_params this entry serialized
                                    ++ credential_fields this \<rparr>] \<rparr>)"
  using assms by (simp add: postJob_def find_name_objects rpc_eq job_params_def field_def)

lemma postJob_match_throws:
  assumes "services this = JArr (map JObj catalog)"
      and "find (\<lambda>s. s ''name'' = Some (JStr service_name)) catalog = Some entry"
      and "stringify job_config = Inl e"
  shows "postJob stringify service_name job_config this w = (Inl e, w)"
  using assms by (simp add: postJob_def find_name_objects)

lemma job_params_worker_filter:
  "(job_params this entry serialized ++ credential_fields this) ''p_worker_filter''
     = Some (JObj (filter_obj (worker_filter this)))"
  by (simp add: job_params_def credential_fields_def map_add_def)


lemma job_params_service_id:
  "(job_params this entry serialized ++ credential_fields this) ''p_service_id''
     = Some (field entry ''id'')"
  by (simp add: job_params_def credential_fields_def map_add_def)

lemma postJob_log:
  "rpc_log (snd (postJob stringify service_name job_config this w)) = rpc_log w
   \<or> (\<exists>service_id serialized.
        stringify job_config = Inr serialized
        \<and> rpc_log (snd (postJob stringify service_name job_config this w)) =
          rpc_log w @
            [\<lparr> rpc_fn = ''app_owner_post_job_admin'',
               rpc_params =
                 [''p_service_id'' \<mapsto> service_id,
                  ''p_job_config'' \<mapsto> serialized_value serialized,
                  ''p_worker_filter'' \<mapsto> JObj (filter_obj (worker_filter this))]
                 ++ credential_fields this \<rparr>])"
  by (auto simp: postJob_def rpc_eq split: jsval.split sum.split)

text \<open>A \<^verbatim>\<open>postJob\<close> that returns a pair has made its call, with the client's worker filter.\<close>

lemma postJob_returned:
  assumes "fst (postJob stringify service_name job_config this w) = Inr r"
  shows "\<exists>call. rpc_log (snd (postJob stringify service_name job_config this w)) = rpc_log w @ [call]
           \<and> rpc_fn call = ''app_owner_post_job_admin''
           \<and> rpc_params call ''p_worker_filter'' = Some (JObj (filter_obj (worker_filter this)))"
  using assms
  by (auto simp: postJob_def rpc_eq credential_fields_def map_add_def
           split: jsval.splits sum.splits if_splits)

lemma runStableDiffusion_returned:
  assumes "fst (runStableDiffusion stringify args model_name this w) = Inr r"
  shows "\<exists>r'. fst (postJob stringify model_name args this w) = Inr r'"
  using assms by (auto simp: runStableDiffusion_def split: prod.splits sum.splits if_splits)

lemma postJob_relay: "relay (snd (postJob stringify service_name job_config this w)) = relay w"
  by (simp add: postJob_def rpc_eq split: jsval.split sum.split)

lemma runStableDiffusion_world:
  "snd (runStableDiffusion stringify args model_name this w) =
     snd (postJob stringify model_name args this w)"
  by (simp add: runStableDiffusion_def split: prod.split sum.split)

lemma exec_worker_filter:
  "worker_filter (fst (exec stringify operation (this, w))) = worker_filter this"
  by (cases operation) (simp_all add: getServiceList_eq Let_def)

lemma exec_services:
  "operation \<noteq> GetServiceList \<Longrightarrow> services (fst (exec stringify operation (this, w))) = services this"
  by (cases operation) simp_all

lemma run_worker_filter:
  "worker_filter (fst (run stringify operations s)) = worker_filter (fst s)"
proof (induction operations arbitrary: s)
  case Nil
  show ?case by simp
next
  case (Cons operation rest)
  obtain this w where s: "s = (this, w)" by (cases s)
  show ?case using Cons.IH [of "exec stringify operation (this, w)"]
    by (simp add: s exec_worker_filter)
qed


lemma dom_credential_fields:
  "dom (credential_fields this) = {''p_app_id'', ''p_key'', ''p_app_user_id'', ''p_app_user_token''}"
  by (auto simp: credential_fields_def)

text \<open>The serialiser on the configurations of the examples.\<close>

lemma stringify_example_config: \<open>JSON_stringify example_config = Inr (Some ''{"steps":28}'')\<close>
  by (simp add: JSON_stringify_def example_config_def quote_json_string_def quote_char_def
        number_to_string_def)

lemma example_client_services: "services example_client = JArr (map JObj [example_service])"
  by (simp add: example_client_eq)

lemma example_find_sdxl:
  "find (\<lambda>entry. entry ''name'' = Some (JStr ''sdxl'')) [example_service] = Some example_service"
  by (simp add: example_service_def)

section \<open>The claims\<close>

text \<open>
  Claim C1, as the code has it. When the catalog is a list of service objects none of
  which has the name \<open>service_name\<close> (the empty catalog included), \<^verbatim>\<open>postJob\<close> throws
  \<^verbatim>\<open>Error("Invalid model name")\<close>: its promise rejects, no \<^verbatim>\<open>{data, error}\<close> pair is returned.
  The world is unchanged, so the gateway has received no call.
\<close>

theorem postJob_unknown_service_throws:
  assumes "services this = JArr (map JObj catalog)"
      and "\<forall>entry\<in>set catalog. entry ''name'' \<noteq> Some (JStr service_name)"
  shows "postJob stringify service_name job_config this w =
           (Inl (Error ''Invalid model name''), w)"
proof -
  have "find (\<lambda>s. s ''name'' = Some (JStr service_name)) catalog = None"
    using assms(2) by (simp add: find_None_iff)
  with assms(1) show ?thesis by (rule postJob_no_match)
qed

theorem postJob_unknown_service_throws_witness:
  "postJob JSON_stringify ''dalle'' example_config example_client example_world =
     (Inl (Error ''Invalid model name''), example_world)"
proof -
  have c: "services example_client = JArr (map JObj [example_service])"
    by (simp add: example_client_eq)
  have n: "\<forall>entry\<in>set [example_service]. entry ''name'' \<noteq> Some (JStr ''dalle'')"
    by (simp add: example_service_def)
  show ?thesis by (rule postJob_unknown_service_throws [OF c n])
qed

text \<open>
  The example of the specification, a freshly constructed client (empty catalog) and the
  name \<^verbatim>\<open>sdxl\<close>: the outcome is the thrown error, not the pair
  \<^verbatim>\<open>{data: null, error: "Invalid model name"}\<close>.
\<close>

theorem postJob_empty_catalog_not_a_result:
  "fst (postJob JSON_stringify ''sdxl'' example_config
          (SelasClient_new example_gateway ''app-1'' ''key-1'' ''user-1'' ''token-1'' None)
          example_world)
     = Inl (Error ''Invalid model name'')
   \<and> fst (postJob JSON_stringify ''sdxl'' example_config
          (SelasClient_new example_gateway ''app-1'' ''key-1'' ''user-1'' ''token-1'' None)
          example_world)
     \<noteq> Inr \<lparr> data = JNull, error = JStr ''Invalid model name'' \<rparr>"
  by (simp add: postJob_def SelasClient_new_def)

text \<open>
  Claim C2, as the code has it. When the catalog is a list of service objects, \<open>entry\<close> is
  the one that \<^verbatim>\<open>find\<close> selects for \<open>service_name\<close> (the first with that name) and
  \<^verbatim>\<open>JSON.stringify\<close> returns on the job configuration, \<^verbatim>\<open>postJob\<close> adds exactly one call to
  those the gateway has received, to \<^verbatim>\<open>app_owner_post_job_admin\<close>, with \<^verbatim>\<open>p_service_id\<close> the
  \<^verbatim>\<open>id\<close> field of \<open>entry\<close>, and returns the gateway's pair for that call as it is: its
  \<^verbatim>\<open>data\<close> (the job identifier) and its \<^verbatim>\<open>error\<close> (\<^verbatim>\<open>null\<close> on success).
\<close>

theorem postJob_known_service_one_call:
  assumes "services this = JArr (map JObj catalog)"
      and "find (\<lambda>entry. entry ''name'' = Some (JStr service_name)) catalog = Some entry"
      and "stringify job_config = Inr serialized"
  shows "\<exists>call. rpc_fn call = ''app_owner_post_job_admin''
           \<and> rpc_params call ''p_service_id'' = Some (field entry ''id'')
           \<and> postJob stringify service_name job_config this w =
               (Inr (supabase this (rpc_log w) (rpc_fn call) (rpc_params call)),
                w\<lparr> rpc_log := rpc_log w @ [call] \<rparr>)"
proof -
  let ?call = "\<lparr> rpc_fn = ''app_owner_post_job_admin'',
                 rpc_params = job_params this entry serialized ++ credential_fields this \<rparr>"
  have "rpc_params ?call ''p_service_id'' = Some (field entry ''id'')"
    by (simp add: job_params_service_id)
  moreover have "postJob stringify service_name job_config this w =
      (Inr (supabase this (rpc_log w) (rpc_fn ?call) (rpc_params ?call)),
       w\<lparr> rpc_log := rpc_log w @ [?call] \<rparr>)"
    using postJob_match [where stringify = stringify and job_config = job_config, OF assms]
    by simp
  ultimately show ?thesis by (intro exI [of _ ?call]) simp
qed

theorem postJob_known_service_one_call_witness:
  "\<exists>call. rpc_fn call = ''app_owner_post_job_admin''
     \<and> rpc_params call ''p_service_id'' = Some (JStr ''svc-1'')
     \<and> postJob JSON_stringify ''sdxl'' example_config example_client example_world =
         (Inr \<lparr> data = JStr ''job-42'', error = JNull \<rparr>,
          example_world\<lparr> rpc_log := rpc_log example_world @ [call] \<rparr>)"
proof -
  have i: "field example_service ''id'' = JStr ''svc-1''"
    by (simp add: field_def example_service_def)
  have g: "supabase example_client received ''app_owner_post_job_admin'' params
             = \<lparr> data = JStr ''job-42'', error = JNull \<rparr>" for received params
    by (simp add: example_client_eq example_gateway_def)
  from postJob_known_service_one_call
         [where stringify = JSON_stringify and job_config = example_config
            and w = example_world,
          OF example_client_services example_find_sdxl stringify_example_config]
  obtain call where "rpc_fn call = ''app_owner_post_job_admin''"
    and "rpc_params call ''p_service_id'' = Some (field example_service ''id'')"
    and "postJob JSON_stringify ''sdxl'' example_config example_client example_world =
           (Inr (supabase example_client (rpc_log example_world) (rpc_fn call) (rpc_params call)),
            example_world\<lparr> rpc_log := rpc_log example_world @ [call] \<rparr>)"
    by blast
  then show ?thesis by (intro exI [of _ call]) (simp add: i g)
qed

text \<open>
  The claim as stated fails on a configuration that the serialiser rejects. The catalog
  of the example client has the service \<^verbatim>\<open>sdxl\<close>, and \<^verbatim>\<open>JSON.stringify({seed: 1n})\<close> throws a
  TypeError: \<^verbatim>\<open>postJob\<close> rejects with it and the gateway receives no call.
\<close>

theorem postJob_unserialisable_config_no_call:
  "services example_client = JArr [JObj example_service]
   \<and> example_service ''name'' = Some (JStr ''sdxl'')
   \<and> JSON_stringify (CObj [(''seed'', CBigInt 1)]) = Inl TypeError
   \<and> fst (postJob JSON_stringify ''sdxl'' (CObj [(''seed'', CBigInt 1)])
            example_client example_world) = Inl TypeError
   \<and> rpc_log (snd (postJob JSON_stringify ''sdxl'' (CObj [(''seed'', CBigInt 1)])
                     example_client example_world)) = []"
proof -
  have t: "JSON_stringify (CObj [(''seed'', CBigInt 1)]) = Inl TypeError"
    by (simp add: JSON_stringify_def)
  have "postJob JSON_stringify ''sdxl'' (CObj [(''seed'', CBigInt 1)]) example_client example_world
          = (Inl TypeError, example_world)"
    by (rule postJob_match_throws
          [where stringify = JSON_stringify and job_config = "CObj [(''seed'', CBigInt 1)]",
           OF example_client_services example_find_sdxl t])
  then show ?thesis
    by (simp add: t example_client_eq example_service_def example_world_def)
qed




text \<open>
  Claim C4. For a matched service name, when the gateway answers the job-creation call
  (the one made once \<^verbatim>\<open>JSON.stringify\<close> has returned) with the pair \<^verbatim>\<open>{data: null, error: e}\<close>,
  \<^verbatim>\<open>postJob\<close> returns \<^verbatim>\<open>{data: null, error: e}\<close>: the same error value \<open>e\<close>, whatever it is, and
  no data.
\<close>

theorem postJob_forwards_backend_error:
  assumes "services this = JArr (map JObj catalog)"
      and "find (\<lambda>entry. entry ''name'' = Some (JStr service_name)) catalog = Some entry"
      and "stringify job_config = Inr serialized"
      and "supabase this (rpc_log w) ''app_owner_post_job_admin''
             (job_params this entry serialized ++ credential_fields this)
           = \<lparr> data = JNull, error = e \<rparr>"
  shows "fst (postJob stringify service_name job_config this w) = Inr \<lparr> data = JNull, error = e \<rparr>"
  using postJob_match [where stringify = stringify and job_config = job_config and w = w,
                       OF assms(1,2,3)] assms(4)
  by simp

theorem postJob_forwards_backend_error_witness:
  "fst (postJob JSON_stringify ''sdxl'' example_config failing_client example_world)
     = Inr \<lparr> data = JNull, error = JObj [''message'' \<mapsto> JStr ''quota exceeded''] \<rparr>"
proof -
  have c: "services failing_client = JArr (map JObj [example_service])"
    by (simp add: failing_client_def example_client_eq)
  have g: "supabase failing_client (rpc_log example_world) ''app_owner_post_job_admin''
             (job_params failing_client example_service (Some s)
                ++ credential_fields failing_client)
           = \<lparr> data = JNull, error = JObj [''message'' \<mapsto> JStr ''quota exceeded''] \<rparr>" for s
    by (simp add: failing_client_def failing_gateway_def)
  show ?thesis
    by (rule postJob_forwards_backend_error
          [where stringify = JSON_stringify and job_config = example_config,
           OF c example_find_sdxl stringify_example_config g])
qed

text \<open>
  Claim C5. \<^verbatim>\<open>rpc\<close> sends the parameters it is given merged with the credential fields, which
  are exactly \<^verbatim>\<open>p_app_id\<close>, \<^verbatim>\<open>p_key\<close>, \<^verbatim>\<open>p_app_user_id\<close>, \<^verbatim>\<open>p_app_user_token\<close> with the values
  stored in the client. Hence the one call of the service listing, of the echo, of the
  credits query and of the job history carries its own parameters merged with the four
  fields, and so does the call of a job submission whenever it makes one.
\<close>

theorem every_call_carries_credentials:
  "snd (rpc this f params w) =
      w\<lparr> rpc_log := rpc_log w @ [\<lparr> rpc_fn = f, rpc_params = params ++ credential_fields this \<rparr>] \<rparr>
   \<and> dom (credential_fields this) = {''p_app_id'', ''p_key'', ''p_app_user_id'', ''p_app_user_token''}
   \<and> credential_fields this ''p_app_id'' = Some (JStr (app_id this))
   \<and> credential_fields this ''p_key'' = Some (JStr (key this))
   \<and> credential_fields this ''p_app_user_id'' = Some (JStr (app_user_id this))
   \<and> credential_fields this ''p_app_user_token'' = Some (JStr (app_user_token this))
   \<and> rpc_log (snd (snd (getServiceList this w))) =
        rpc_log w @ [\<lparr> rpc_fn = ''app_user_get_services'',
                       rpc_params = Map.empty ++ credential_fields this \<rparr>]
   \<and> rpc_log (snd (echo message this w)) =
        rpc_log w @ [\<lparr> rpc_fn = ''app_user_echo'',
                       rpc_params = [''message_app_user'' \<mapsto> JStr message]
                                      ++ credential_fields this \<rparr>]
   \<and> rpc_log (snd (getAppUserCredits this w)) =
        rpc_log w @ [\<lparr> rpc_fn = ''app_user_get_credits'',
                       rpc_params = Map.empty ++ credential_fields this \<rparr>]
   \<and> rpc_log (snd (getAppUserJobHistory limit offset this w)) =
        rpc_log w @ [\<lparr> rpc_fn = ''app_user_get_job_history_detail'',
                       rpc_params = [''p_limit'' \<mapsto> JNum limit, ''p_offset'' \<mapsto> JNum offset]
                                      ++ credential_fields this \<rparr>]
   \<and> (rpc_log (snd (postJob stringify service_name job_config this w)) = rpc_log w
      \<or> (\<exists>service_id serialized.
            stringify job_config = Inr serialized
            \<and> rpc_log (snd (postJob stringify service_name job_config this w)) =
              rpc_log w @
                [\<lparr> rpc_fn = ''app_owner_post_job_admin'',
                   rpc_params =
                     [''p_service_id'' \<mapsto> service_id,
                      ''p_job_config'' \<mapsto> serialized_value serialized,
                      ''p_worker_filter'' \<mapsto> JObj (filter_obj (worker_filter this))]
                     ++ credential_fields this \<rparr>]))"
proof -
  have "snd (rpc this f params w) =
      w\<lparr> rpc_log := rpc_log w @ [\<lparr> rpc_fn = f, rpc_params = params ++ credential_fields this \<rparr>] \<rparr>"
    by (simp add: rpc_eq)
  moreover have "credential_fields this ''p_app_id'' = Some (JStr (app_id this))"
    and "credential_fields this ''p_key'' = Some (JStr (key this))"
    and "credential_fields this ''p_app_user_id'' = Some (JStr (app_user_id this))"
    and "credential_fields this ''p_app_user_token'' = Some (JStr (app_user_token this))"
    by (simp_all add: credential_fields_def)
  moreover have "rpc_log (snd (snd (getServiceList this w))) =
        rpc_log w @ [\<lparr> rpc_fn = ''app_user_get_services'',
                       rpc_params = Map.empty ++ credential_fields this \<rparr>]"
    by (simp add: getServiceList_eq Let_def)
  moreover have "rpc_log (snd (echo message this w)) =
        rpc_log w @ [\<lparr> rpc_fn = ''app_user_echo'',
                       rpc_params = [''message_app_user'' \<mapsto> JStr message]
                                      ++ credential_fields this \<rparr>]"
    by (simp add: echo_def rpc_eq)
  moreover have "rpc_log (snd (getAppUserCredits this w)) =
        rpc_log w @ [\<lparr> rpc_fn = ''app_user_get_credits'',
                       rpc_params = Map.empty ++ credential_fields this \<rparr>]"
    by (simp add: getAppUserCredits_def rpc_eq)
  moreover have "rpc_log (snd (getAppUserJobHistory limit offset this w)) =
        rpc_log w @ [\<lparr> rpc_fn = ''app_user_get_job_history_detail'',
                       rpc_params = [''p_limit'' \<mapsto> JNum limit, ''p_offset'' \<mapsto> JNum offset]
                                      ++ credential_fields this \<rparr>]"
    by (simp add: getAppUserJobHistory_def rpc_eq)
  ultimately show ?thesis
    using dom_credential_fields [of this]
      postJob_log [of stringify service_name job_config this w]
    by blast
qed

text \<open>
  Claim C6. When the gateway answers the catalog fetch with a list, \<^verbatim>\<open>getServiceList\<close> leaves
  the client with exactly that list, whatever the list was before: same entries, same
  order, nothing dropped and nothing kept from the old one; the same holds for the fetch
  that \<^verbatim>\<open>createSelasClient\<close> makes. Every operation other than the fetch leaves the service
  list as it was.
\<close>

theorem catalog_replaced_only_by_fetch:
  "(data (supabase this (rpc_log w) ''app_user_get_services'' (credential_fields this))
      = JArr entries
    \<longrightarrow> services (fst (snd (getServiceList this w))) = JArr entries)
   \<and> (data (sb (rpc_log w) ''app_user_get_services''
              (credential_fields (SelasClient_new sb a k u t worker_filter_arg)))
      = JArr entries
    \<longrightarrow> services (fst (createSelasClient sb a k u t worker_filter_arg w)) = JArr entries)
   \<and> (operation \<noteq> GetServiceList
    \<longrightarrow> services (fst (exec stringify operation (this, w))) = services this)"
  by (simp add: getServiceList_eq createSelasClient_def Let_def exec_services
        SelasClient_new_def)

theorem catalog_replaced_only_by_fetch_witness:
  "services (fst (snd (getServiceList
      (example_client\<lparr> services := JArr [JNull, JObj Map.empty] \<rparr>) example_world)))
     = JArr [JObj example_service]
   \<and> services (fst (createSelasClient example_gateway ''app-1'' ''key-1'' ''user-1'' ''token-1''
                       None example_world))
     = JArr [JObj example_service]
   \<and> services (fst (exec JSON_stringify (PostJob ''sdxl'' example_config)
                       (example_client\<lparr> services := JArr [JNull, JObj Map.empty] \<rparr>,
                        example_world)))
     = JArr [JNull, JObj Map.empty]"
proof -
  let ?c = "example_client\<lparr> services := JArr [JNull, JObj Map.empty] \<rparr>"
  have a: "data (supabase ?c (rpc_log example_world) ''app_user_get_services''
                   (credential_fields ?c)) = JArr [JObj example_service]"
    by (simp add: example_client_eq example_gateway_def)
  have b: "data (example_gateway (rpc_log example_world) ''app_user_get_services''
              (credential_fields (SelasClient_new example_gateway ''app-1'' ''key-1'' ''user-1''
                 ''token-1'' None))) = JArr [JObj example_service]"
    by (simp add: example_gateway_def)
  have c: "PostJob ''sdxl'' example_config \<noteq> (GetServiceList :: (js_config, string) operation)"
    by simp
  note t = catalog_replaced_only_by_fetch
    [of ?c example_world "[JObj example_service]" example_gateway "''app-1''" "''key-1''"
        "''user-1''" "''token-1''" None "PostJob ''sdxl'' example_config" JSON_stringify]
  from t a have "services (fst (snd (getServiceList ?c example_world))) = JArr [JObj example_service]"
    by blast
  moreover from t b have "services (fst (createSelasClient example_gateway ''app-1'' ''key-1''
       ''user-1'' ''token-1'' None example_world)) = JArr [JObj example_service]"
    by blast
  moreover from t c have "services (fst (exec JSON_stringify (PostJob ''sdxl'' example_config)
                       (?c, example_world))) = services ?c"
    by blast
  ultimately show ?thesis by simp
qed

text \<open>
  Claim C7. \<^verbatim>\<open>subscribeToJob\<close> opens one connection, on which it subscribes to the single
  channel \<^verbatim>\<open>job-\<close> followed by the job identifier, with the callback as the only binding,
  on the event \<^verbatim>\<open>result\<close>. It makes no remote-procedure call. Under the relay's delivery
  rule an event on that connection runs the callback when it is a \<^verbatim>\<open>result\<close> event on that
  channel, and runs nothing otherwise.
\<close>

theorem subscribeToJob_one_channel_one_event:
  "relay (subscribeToJob job_id callback w) =
     relay w @ [\<lparr> pusher_key = ''n'', pusher_cluster = ''eu'',
                  channels = [\<lparr> channel_name = ''job-'' @ job_id,
                                bindings = [(''result'', callback)] \<rparr>] \<rparr>]
   \<and> rpc_log (subscribeToJob job_id callback w) = rpc_log w
   \<and> delivered (last (relay (subscribeToJob job_id callback w))) n event =
       (if n = ''job-'' @ job_id \<and> event = ''result'' then [callback] else [])"
  by (simp add: subscribeToJob_def Pusher_new_def pusher_subscribe_def channel_bind_def
        delivered_def Let_def)

text \<open>
  Claim C8. Constructed without a worker filter, the client has the filter
  \<^verbatim>\<open>{branch: "prod"}\<close>; constructed with one, it has that one; \<^verbatim>\<open>createSelasClient\<close> keeps what
  the constructor set, and no sequence of operations changes the filter. A job
  submission either sends nothing or makes one call whose \<^verbatim>\<open>p_worker_filter\<close> is the
  client's filter, and it makes that call whenever it returns a pair, through \<^verbatim>\<open>postJob\<close>
  or through \<^verbatim>\<open>runStableDiffusion\<close>, and whenever the service name is matched and the
  serialiser returns. In particular, after construction and any sequence of operations
  a submission that returns has sent the filter set at construction.
\<close>

theorem worker_filter_default_and_sent:
  "worker_filter (SelasClient_new sb a k u t None) =
     \<lparr> id_w = None, name_w = None, branch = Some ''prod'', is_dirty = None, cluster = None \<rparr>
   \<and> worker_filter (SelasClient_new sb a k u t (Some f)) = f
   \<and> worker_filter (fst (createSelasClient sb a k u t worker_filter_arg w)) =
       worker_filter (SelasClient_new sb a k u t worker_filter_arg)
   \<and> worker_filter (fst (run stringify operations (this, w))) = worker_filter this
   \<and> (rpc_log (snd (postJob stringify service_name job_config this w)) = rpc_log w
      \<or> (\<exists>call.
            rpc_log (snd (postJob stringify service_name job_config this w)) = rpc_log w @ [call]
            \<and> rpc_params call ''p_worker_filter'' = Some (JObj (filter_obj (worker_filter this)))))
   \<and> (fst (postJob stringify service_name job_config this w) = Inr r
      \<longrightarrow> (\<exists>call.
            rpc_log (snd (postJob stringify service_name job_config this w)) = rpc_log w @ [call]
            \<and> rpc_fn call = ''app_owner_post_job_admin''
            \<and> rpc_params call ''p_worker_filter'' = Some (JObj (filter_obj (worker_filter this)))))
   \<and> (fst (runStableDiffusion stringify job_config service_name this w) = Inr r
      \<longrightarrow> (\<exists>call.
            rpc_log (snd (runStableDiffusion stringify job_config service_name this w))
              = rpc_log w @ [call]
            \<and> rpc_fn call = ''app_owner_post_job_admin''
            \<and> rpc_params call ''p_worker_filter'' = Some (JObj (filter_obj (worker_filter this)))))
   \<and> (services this = JArr (map JObj catalog)
      \<and> find (\<lambda>entry. entry ''name'' = Some (JStr service_name)) catalog = Some entry
      \<and> stringify job_config = Inr serialized
      \<longrightarrow> (\<exists>call.
            rpc_log (snd (postJob stringify service_name job_config this w)) = rpc_log w @ [call]
            \<and> rpc_fn call = ''app_owner_post_job_admin''
            \<and> rpc_params call ''p_worker_filter'' = Some (JObj (filter_obj (worker_filter this)))))
   \<and> (fst (postJob stringify service_name job_config
              (fst (run stringify operations (SelasClient_new sb a k u t worker_filter_arg, w)))
              w') = Inr r
      \<longrightarrow> (\<exists>call.
            rpc_log (snd (postJob stringify service_name job_config
              (fst (run stringify operations (SelasClient_new sb a k u t worker_filter_arg, w)))
              w')) = rpc_log w' @ [call]
            \<and> rpc_params call ''p_worker_filter'' =
                Some (JObj (filter_obj
                  (worker_filter (SelasClient_new sb a k u t worker_filter_arg))))))"
proof -
  have c3: "worker_filter (fst (createSelasClient sb a k u t worker_filter_arg w)) =
       worker_filter (SelasClient_new sb a k u t worker_filter_arg)"
    by (simp add: createSelasClient_def getServiceList_eq Let_def)
  have c4: "worker_filter (fst (run stringify operations (this, w))) = worker_filter this"
    by (simp add: run_worker_filter)
  have c5: "rpc_log (snd (postJob stringify service_name job_config this w)) = rpc_log w
      \<or> (\<exists>call.
            rpc_log (snd (postJob stringify service_name job_config this w)) = rpc_log w @ [call]
            \<and> rpc_params call ''p_worker_filter'' = Some (JObj (filter_obj (worker_filter this))))"
  proof -
    have "([''p_service_id'' \<mapsto> service_id, ''p_job_config'' \<mapsto> c, ''p_worker_filter'' \<mapsto> v]
             ++ credential_fields this) ''p_worker_filter'' = Some v" for service_id c v
      by (simp add: credential_fields_def map_add_def)
    then show ?thesis
      using postJob_log [of stringify service_name job_config this w] by fastforce
  qed
  have c6: "fst (postJob stringify service_name job_config this w) = Inr r
      \<longrightarrow> (\<exists>call.
            rpc_log (snd (postJob stringify service_name job_config this w)) = rpc_log w @ [call]
            \<and> rpc_fn call = ''app_owner_post_job_admin''
            \<and> rpc_params call ''p_worker_filter'' = Some (JObj (filter_obj (worker_filter this))))"
    by (rule impI) (rule postJob_returned)
  have c7: "fst (runStableDiffusion stringify job_config service_name this w) = Inr r
      \<longrightarrow> (\<exists>call.
            rpc_log (snd (runStableDiffusion stringify job_config service_name this w))
              = rpc_log w @ [call]
            \<and> rpc_fn call = ''app_owner_post_job_admin''
            \<and> rpc_params call ''p_worker_filter'' = Some (JObj (filter_obj (worker_filter this))))"
  proof
    assume "fst (runStableDiffusion stringify job_config service_name this w) = Inr r"
    from runStableDiffusion_returned [OF this]
    obtain r' where "fst (postJob stringify service_name job_config this w) = Inr r'" ..
    from postJob_returned [OF this] show "\<exists>call.
            rpc_log (snd (runStableDiffusion stringify job_config service_name this w))
              = rpc_log w @ [call]
            \<and> rpc_fn call = ''app_owner_post_job_admin''
            \<and> rpc_params call ''p_worker_filter'' = Some (JObj (filter_obj (worker_filter this)))"
      by (simp add: runStableDiffusion_world)
  qed
  have c8: "services this = JArr (map JObj catalog)
      \<and> find (\<lambda>entry. entry ''name'' = Some (JStr service_name)) catalog = Some entry
      \<and> stringify job_config = Inr serialized
      \<longrightarrow> (\<exists>call.
            rpc_log (snd (postJob stringify service_name job_config this w)) = rpc_log w @ [call]
            \<and> rpc_fn call = ''app_owner_post_job_admin''
            \<and> rpc_params call ''p_worker_filter'' = Some (JObj (filter_obj (worker_filter this))))"
  proof
    assume h: "services this = JArr (map JObj catalog)
      \<and> find (\<lambda>entry. entry ''name'' = Some (JStr service_name)) catalog = Some entry
      \<and> stringify job_config = Inr serialized"
    let ?call = "\<lparr> rpc_fn = ''app_owner_post_job_admin'',
                   rpc_params = job_params this entry serialized ++ credential_fields this \<rparr>"
    have "rpc_log (snd (postJob stringify service_name job_config this w)) = rpc_log w @ [?call]"
      using postJob_match [of this catalog service_name entry stringify job_config serialized w] h
      by simp
    then show "\<exists>call.
            rpc_log (snd (postJob stringify service_name job_config this w)) = rpc_log w @ [call]
            \<and> rpc_fn call = ''app_owner_post_job_admin''
            \<and> rpc_params call ''p_worker_filter'' = Some (JObj (filter_obj (worker_filter this)))"
      by (intro exI [of _ ?call]) (simp add: job_params_worker_filter)
  qed
  have c9: "fst (postJob stringify service_name job_config
              (fst (run stringify operations (SelasClient_new sb a k u t worker_filter_arg, w)))
              w') = Inr r
      \<longrightarrow> (\<exists>call.
            rpc_log (snd (postJob stringify service_name job_config
              (fst (run stringify operations (SelasClient_new sb a k u t worker_filter_arg, w)))
              w')) = rpc_log w' @ [call]
            \<and> rpc_params call ''p_worker_filter'' =
                Some (JObj (filter_obj
                  (worker_filter (SelasClient_new sb a k u t worker_filter_arg)))))"
  proof
    let ?client = "fst (run stringify operations (SelasClient_new sb a k u t worker_filter_arg, w))"
    assume "fst (postJob stringify service_name job_config ?client w') = Inr r"
    from postJob_returned [OF this]
    obtain call where
      "rpc_log (snd (postJob stringify service_name job_config ?client w')) = rpc_log w' @ [call]"
      and "rpc_params call ''p_worker_filter'' = Some (JObj (filter_obj (worker_filter ?client)))"
      by blast
    moreover have "worker_filter ?client = worker_filter (SelasClient_new sb a k u t worker_filter_arg)"
      by (simp add: run_worker_filter)
    ultimately show "\<exists>call.
            rpc_log (snd (postJob stringify service_name job_config ?client w')) = rpc_log w' @ [call]
            \<and> rpc_params call ''p_worker_filter'' =
                Some (JObj (filter_obj
                  (worker_filter (SelasClient_new sb a k u t worker_filter_arg))))"
      by auto
  qed
  have c1: "worker_filter (SelasClient_new sb a k u t None) =
     \<lparr> id_w = None, name_w = None, branch = Some ''prod'', is_dirty = None, cluster = None \<rparr>"
    and c2: "worker_filter (SelasClient_new sb a k u t (Some f)) = f"
    by (simp_all add: SelasClient_new_def)
  from c1 c2 c3 c4 c5 c6 c7 c8 c9 show ?thesis by (intro conjI)
qed

text \<open>
  On the examples: a client constructed without a filter fetches the catalog, makes an
  echo call and then submits \<^verbatim>\<open>{steps: 28}\<close> to \<^verbatim>\<open>sdxl\<close>; the call carries
  \<^verbatim>\<open>p_worker_filter = {branch: "prod"}\<close>.
\<close>

theorem worker_filter_default_and_sent_witness:
  "\<exists>call.
     rpc_log (snd (postJob JSON_stringify ''sdxl'' example_config
        (fst (run JSON_stringify [GetServiceList, Echo ''hello'']
                (SelasClient_new example_gateway ''app-1'' ''key-1'' ''user-1'' ''token-1'' None,
                 example_world)))
        example_world)) = rpc_log example_world @ [call]
     \<and> rpc_params call ''p_worker_filter'' =
         Some (JObj (filter_obj \<lparr> id_w = None, name_w = None, branch = Some ''prod'',
                                  is_dirty = None, cluster = None \<rparr>))"
proof -
  let ?new = "SelasClient_new example_gateway ''app-1'' ''key-1'' ''user-1'' ''token-1'' None"
  let ?client = "fst (run JSON_stringify [GetServiceList, Echo ''hello''] (?new, example_world))"
  have st: "?client = example_client"
    by (simp add: example_client_def createSelasClient_def getServiceList_eq Let_def)
  have \<open>postJob JSON_stringify ''sdxl'' example_config example_client example_world =
          (Inr (supabase example_client (rpc_log example_world) ''app_owner_post_job_admin''
                  (job_params example_client example_service (Some ''{"steps":28}'')
                     ++ credential_fields example_client)),
           example_world\<lparr> rpc_log := rpc_log example_world @
              [\<lparr> rpc_fn = ''app_owner_post_job_admin'',
                 rpc_params = job_params example_client example_service (Some ''{"steps":28}'')
                                ++ credential_fields example_client \<rparr>] \<rparr>)\<close>
    by (rule postJob_match
          [where stringify = JSON_stringify and job_config = example_config,
           OF example_client_services example_find_sdxl stringify_example_config])
  then have "fst (postJob JSON_stringify ''sdxl'' example_config example_client example_world)
               = Inr \<lparr> data = JStr ''job-42'', error = JNull \<rparr>"
    by (simp add: example_client_eq example_gateway_def)
  then have ret: "fst (postJob JSON_stringify ''sdxl'' example_config ?client example_world)
                    = Inr \<lparr> data = JStr ''job-42'', error = JNull \<rparr>"
    unfolding st .
  note t = worker_filter_default_and_sent
    [where sb = example_gateway and a = "''app-1''" and k = "''key-1''" and u = "''user-1''"
       and t = "''token-1''" and worker_filter_arg = None and w = example_world
       and stringify = JSON_stringify and operations = "[GetServiceList, Echo ''hello'']"
       and service_name = "''sdxl''" and job_config = example_config
       and r = "\<lparr> data = JStr ''job-42'', error = JNull \<rparr>" and w' = example_world]
  from t ret obtain call where
    "rpc_log (snd (postJob JSON_stringify ''sdxl'' example_config ?client example_world))
       = rpc_log example_world @ [call]"
    and "rpc_params call ''p_worker_filter'' = Some (JObj (filter_obj (worker_filter ?new)))"
    by blast
  moreover from t have "worker_filter ?new =
      \<lparr> id_w = None, name_w = None, branch = Some ''prod'', is_dirty = None, cluster = None \<rparr>"
    by blast
  ultimately show ?thesis by auto
qed

text \<open>
  Claim C9. When the gateway answers the catalog fetch with no data (\<^verbatim>\<open>data\<close> is \<^verbatim>\<open>null\<close>, the
  error case), \<^verbatim>\<open>getServiceList\<close> leaves the service list as it was.
\<close>

theorem getServiceList_no_data_keeps_catalog:
  assumes "data (supabase this (rpc_log w) ''app_user_get_services'' (credential_fields this))
             = JNull"
  shows "services (fst (snd (getServiceList this w))) = services this"
  using assms by (simp add: getServiceList_eq Let_def)

theorem getServiceList_no_data_keeps_catalog_witness:
  "services (fst (snd (getServiceList failing_client example_world)))
     = JArr [JObj example_service]"
proof -
  have d: "data (supabase failing_client (rpc_log example_world) ''app_user_get_services''
                   (credential_fields failing_client)) = JNull"
    by (simp add: failing_client_def failing_gateway_def)
  have "services failing_client = JArr [JObj example_service]"
    by (simp add: failing_client_def example_client_eq)
  with getServiceList_no_data_keeps_catalog [OF d] show ?thesis by simp
qed

text \<open>
  Claim C10. Under each of the four credential keys, the parameters that \<^verbatim>\<open>rpc\<close> sends hold
  the client's own credential, whatever the given parameters hold there; and two
  parameter maps that differ only under those keys make \<^verbatim>\<open>rpc\<close> send the same call and
  return the same result.
\<close>

theorem rpc_credentials_override_params:
  "(k \<in> {''p_app_id'', ''p_key'', ''p_app_user_id'', ''p_app_user_token''}
    \<longrightarrow> rpc_params (last (rpc_log (snd (rpc this f params w)))) k = credential_fields this k)
   \<and> ((\<forall>j. j \<notin> {''p_app_id'', ''p_key'', ''p_app_user_id'', ''p_app_user_token''}
            \<longrightarrow> params j = params' j)
    \<longrightarrow> rpc this f params w = rpc this f params' w)"
proof -
  have "params ++ credential_fields this = params' ++ credential_fields this"
    if "\<forall>j. j \<notin> {''p_app_id'', ''p_key'', ''p_app_user_id'', ''p_app_user_token''}
            \<longrightarrow> params j = params' j"
  proof
    fix j
    show "(params ++ credential_fields this) j = (params' ++ credential_fields this) j"
      using that by (auto simp: map_add_def credential_fields_def)
  qed
  moreover have "(params ++ credential_fields this) k = credential_fields this k"
    if "k \<in> {''p_app_id'', ''p_key'', ''p_app_user_id'', ''p_app_user_token''}"
    using that by (auto simp: map_add_def credential_fields_def)
  ultimately show ?thesis by (simp add: rpc_eq)
qed

theorem rpc_credentials_override_params_witness:
  "rpc_params (last (rpc_log (snd (rpc example_client ''app_user_echo''
       [''p_key'' \<mapsto> JStr ''forged'', ''message_app_user'' \<mapsto> JStr ''hello'']
       example_world)))) ''p_key'' = Some (JStr ''key-1'')
   \<and> rpc example_client ''app_user_echo''
       [''p_key'' \<mapsto> JStr ''forged'', ''message_app_user'' \<mapsto> JStr ''hello''] example_world
     = rpc example_client ''app_user_echo'' [''message_app_user'' \<mapsto> JStr ''hello'']
         example_world"
proof -
  let ?K = "{''p_app_id'', ''p_key'', ''p_app_user_id'', ''p_app_user_token''}"
  let ?p = "[''p_key'' \<mapsto> JStr ''forged'', ''message_app_user'' \<mapsto> JStr ''hello'']"
  let ?q = "[''message_app_user'' \<mapsto> JStr ''hello'']"
  have m: "''p_key'' \<in> ?K" by simp
  have e: "\<forall>j. j \<notin> ?K \<longrightarrow> ?p j = ?q j" by simp
  have v: "credential_fields example_client ''p_key'' = Some (JStr ''key-1'')"
    by (simp add: credential_fields_def example_client_eq)
  note t = rpc_credentials_override_params
    [of "''p_key''" example_client "''app_user_echo''" ?p example_world ?q]
  from t m have "rpc_params (last (rpc_log (snd (rpc example_client ''app_user_echo'' ?p
       example_world)))) ''p_key'' = credential_fields example_client ''p_key''"
    by blast
  moreover from t e have "rpc example_client ''app_user_echo'' ?p example_world
     = rpc example_client ''app_user_echo'' ?q example_world"
    by blast
  ultimately show ?thesis by (simp add: v)
qed

end
